theory Spec2Isabelle
  imports Complex_Main
begin

section \<open>JavaScript values, strings and thrown values\<close>

text \<open>
  The package is TypeScript; at run time its inputs are JavaScript values. The validator
  tests \<^verbatim>\<open>!config.url || typeof config.url !== 'string'\<close>, so a field
  declared \<^verbatim>\<open>string\<close> can hold any value when the test runs. Strings are
  lists of code units; a \<^typ>\<open>char\<close> stands for a code unit below 256.
\<close>

text \<open>
  A JavaScript number is an IEEE double: a finite value, one of the two infinities, the
  negative zero or \<^verbatim>\<open>NaN\<close>. Every finite double is a rational; the package only
  tests a number for truthiness and hands it on, so a finite value is kept as its
  rational. \<open>Finite 0\<close> is the positive zero. A number is falsy when it is a zero or
  \<^verbatim>\<open>NaN\<close>.
\<close>

datatype js_number =
    Finite rat
  | NegativeZero
  | PositiveInfinity
  | NegativeInfinity
  | NaN

fun number_truthy :: "js_number \<Rightarrow> bool" where
  "number_truthy (Finite r) = (r \<noteq> 0)"
| "number_truthy NegativeZero = False"
| "number_truthy PositiveInfinity = True"
| "number_truthy NegativeInfinity = True"
| "number_truthy NaN = False"

datatype jsval =
    JUndefined
  | JNull
  | JBool bool
  | JNumber js_number
  | JString string
  | JObject

fun truthy :: "jsval \<Rightarrow> bool" where
  "truthy JUndefined = False"
| "truthy JNull = False"
| "truthy (JBool b) = b"
| "truthy (JNumber n) = number_truthy n"
| "truthy (JString s) = (s \<noteq> [])"
| "truthy JObject = True"

fun typeof :: "jsval \<Rightarrow> string" where
  "typeof JUndefined = ''undefined''"
| "typeof JNull = ''object''"
| "typeof (JBool b) = ''boolean''"
| "typeof (JNumber n) = ''number''"
| "typeof (JString s) = ''string''"
| "typeof JObject = ''object''"

text \<open>The string held by a value; only applied after \<^term>\<open>typeof v = ''string''\<close> was tested.\<close>

fun str_of :: "jsval \<Rightarrow> string" where
  "str_of (JString s) = s"
| "str_of _ = []"

text \<open>
  A thrown value is either an instance of \<^verbatim>\<open>Error\<close> (with its message) or
  anything else; \<^verbatim>\<open>error instanceof Error\<close> tells them apart.
\<close>

datatype js_thrown = ErrorObject string | NonError jsval

text \<open>\<^verbatim>\<open>s.startsWith(t)\<close> and \<^verbatim>\<open>s.includes(t)\<close> on code units.\<close>

fun startsWith :: "string \<Rightarrow> string \<Rightarrow> bool" where
  "startsWith s [] = True"
| "startsWith [] (c # t) = False"
| "startsWith (a # s) (c # t) = (a = c \<and> startsWith s t)"

fun includes_js :: "string \<Rightarrow> string \<Rightarrow> bool" where
  "includes_js [] t = (t = [])"
| "includes_js (a # s) t = (startsWith (a # s) t \<or> includes_js s t)"

text \<open>
  \<^verbatim>\<open>String.prototype.trim\<close> removes white space and line terminators from both
  ends. Among the code units below 256 these are TAB, LF, VT, FF, CR, SPACE and NBSP.
\<close>

definition js_whitespace :: "char \<Rightarrow> bool" where
  "js_whitespace c = ((of_char c :: nat) \<in> {9, 10, 11, 12, 13, 32, 160})"

definition trim :: "string \<Rightarrow> string" where
  "trim s = rev (dropWhile js_whitespace (rev (dropWhile js_whitespace s)))"

text \<open>
  \<^verbatim>\<open>a || d\<close> on an optional string: the default replaces
  \<^verbatim>\<open>null\<close>/\<^verbatim>\<open>undefined\<close> and also the empty string, which is
  falsy. \<^verbatim>\<open>a ?? d\<close> replaces only \<^verbatim>\<open>null\<close>/\<^verbatim>\<open>undefined\<close>.
\<close>

definition truthy_string :: "string option \<Rightarrow> bool" where
  "truthy_string a = (case a of None \<Rightarrow> False | Some s \<Rightarrow> s \<noteq> [])"

definition or_string :: "string option \<Rightarrow> string \<Rightarrow> string" where
  "or_string a d = (case a of None \<Rightarrow> d | Some s \<Rightarrow> if s = [] then d else s)"

definition or_number :: "js_number option \<Rightarrow> js_number \<Rightarrow> js_number" where
  "or_number a d = (case a of None \<Rightarrow> d | Some n \<Rightarrow> if number_truthy n then n else d)"

definition nullish :: "'a option \<Rightarrow> 'a \<Rightarrow> 'a" where
  "nullish a d = (case a of None \<Rightarrow> d | Some x \<Rightarrow> x)"

section \<open>Configuration and validation\<close>

text \<open>
  \<^verbatim>\<open>interface SupabaseConfig\<close>. An optional field that is absent (or
  \<^verbatim>\<open>null\<close>) is \<^term>\<open>None\<close>. The storage adapter is an object of three
  functions, kept abstract as \<^typ>\<open>'s\<close>.
\<close>

record 's SupabaseConfig =
  url :: jsval
  anonKey :: jsval
  storage :: "'s option"
  schema :: "string option"
  realtimeHeartbeatIntervalMs :: "js_number option"
  autoRefreshToken :: "bool option"
  persistSession :: "bool option"
  detectSessionInUrl :: "bool option"

record validation =
  valid :: bool
  error :: "string option"

definition invalid :: "string \<Rightarrow> validation" where
  "invalid msg = \<lparr>valid = False, error = Some msg\<rparr>"

text \<open>
  \<^verbatim>\<open>validateSupabaseConfig(config)\<close>. The platform's \<^verbatim>\<open>URL\<close> class is
  not part of the package: \<open>URL_protocol u\<close> is \<^term>\<open>None\<close> when
  \<^verbatim>\<open>new URL(u)\<close> (or reading its \<^verbatim>\<open>protocol\<close>) throws, and the
  protocol otherwise. A \<^verbatim>\<open>null\<close> or \<^verbatim>\<open>undefined\<close> argument
  (\<^term>\<open>None\<close>) makes the first property read throw a \<^verbatim>\<open>TypeError\<close>,
  whose message \<open>nullish_message\<close> depends on the engine.
\<close>

definition validateSupabaseConfig ::
  "(string \<Rightarrow> string option) \<Rightarrow> string \<Rightarrow> 's SupabaseConfig option \<Rightarrow> js_thrown + validation"
where
  "validateSupabaseConfig URL_protocol nullish_message arg =
     (case arg of
        None \<Rightarrow> Inl (ErrorObject nullish_message)
      | Some config \<Rightarrow>
          if \<not> truthy (url config) \<or> typeof (url config) \<noteq> ''string'' then
            Inr (invalid ''Supabase URL is required and must be a string'')
          else if \<not> truthy (anonKey config) \<or> typeof (anonKey config) \<noteq> ''string'' then
            Inr (invalid ''Supabase anon key is required and must be a string'')
          else
            (case URL_protocol (str_of (url config)) of
               None \<Rightarrow> Inr (invalid ''Invalid Supabase URL format'')
             | Some protocol \<Rightarrow>
                 if protocol \<noteq> ''http:'' \<and> protocol \<noteq> ''https:'' then
                   Inr (invalid ''Supabase URL must use http:// or https:// protocol'')
                 else if length (trim (str_of (anonKey config))) = 0 then
                   Inr (invalid ''Supabase anon key cannot be empty'')
                 else if includes_js (str_of (anonKey config)) ''your_supabase_anon_key''
                       \<or> includes_js (str_of (url config)) ''your-project'' then
                   Inr (invalid
                     ''Please replace placeholder values with actual Supabase credentials'')
                 else Inr \<lparr>valid = True, error = None\<rparr>))"

text \<open>
  The validator as the specification words it: five checks, taken in order, the first one
  that fails decides the error. This is the definition the source's validator is compared
  with.
\<close>

fun first_failure :: "(bool \<times> string) list \<Rightarrow> validation" where
  "first_failure [] = \<lparr>valid = True, error = None\<rparr>"
| "first_failure ((passed, msg) # checks) =
     (if passed then first_failure checks else \<lparr>valid = False, error = Some msg\<rparr>)"

definition present_string :: "jsval \<Rightarrow> bool" where
  "present_string v = (case v of JString s \<Rightarrow> s \<noteq> [] | _ \<Rightarrow> False)"

definition spec_checks :: "(string \<Rightarrow> string option) \<Rightarrow> 's SupabaseConfig \<Rightarrow> (bool \<times> string) list" where
  "spec_checks parse config =
     (let u = str_of (url config); k = str_of (anonKey config) in
      [(present_string (url config), ''Supabase URL is required and must be a string''),
       (present_string (anonKey config), ''Supabase anon key is required and must be a string''),
       (parse u = Some ''http:'' \<or> parse u = Some ''https:'',
        if parse u = None then ''Invalid Supabase URL format''
        else ''Supabase URL must use http:// or https:// protocol''),
       (trim k \<noteq> [], ''Supabase anon key cannot be empty''),
       (\<not> includes_js k ''your_supabase_anon_key'' \<and> \<not> includes_js u ''your-project'',
        ''Please replace placeholder values with actual Supabase credentials'')])"

section \<open>Errors\<close>

text \<open>
  \<^verbatim>\<open>class SupabaseError extends Error\<close> and its subclasses. The prototype set by
  \<^verbatim>\<open>Object.setPrototypeOf\<close> is the field \<open>proto\<close>.
\<close>

datatype error_class =
    SupabaseErrorClass
  | InitializationClass
  | ConfigurationClass
  | AuthClass
  | DatabaseClass
  | StorageClass
  | RealtimeClass

record SupabaseError =
  proto :: error_class
  name :: string
  message :: string
  code :: "string option"
  originalError :: "js_thrown option"

definition SupabaseError_new :: "string \<Rightarrow> string option \<Rightarrow> js_thrown option \<Rightarrow> SupabaseError" where
  "SupabaseError_new msg c orig =
     \<lparr>proto = SupabaseErrorClass, name = ''SupabaseError'', message = msg, code = c,
      originalError = orig\<rparr>"

definition SupabaseInitializationError :: "string \<Rightarrow> js_thrown option \<Rightarrow> SupabaseError" where
  "SupabaseInitializationError msg orig =
     (SupabaseError_new msg (Some ''INITIALIZATION_ERROR'') orig)
       \<lparr>name := ''SupabaseInitializationError'', proto := InitializationClass\<rparr>"

section \<open>The client holder\<close>

text \<open>
  The options object handed to the SDK's \<^verbatim>\<open>createClient\<close>. The default storage
  adapter forwards its three operations to \<^verbatim>\<open>AsyncStorage\<close>.
\<close>

datatype 's storage_adapter = CallerStorage 's | AsyncStorageAdapter

record 's auth_options =
  auth_storage :: "'s storage_adapter"
  auth_autoRefreshToken :: bool
  auth_persistSession :: bool
  auth_detectSessionInUrl :: bool

record 's client_options =
  auth :: "'s auth_options"
  db_schema :: string
  realtime_heartbeatIntervalMs :: js_number

definition client_options_of :: "'s SupabaseConfig \<Rightarrow> 's client_options" where
  "client_options_of config =
     \<lparr>auth =
        \<lparr>auth_storage =
           (case storage config of Some s \<Rightarrow> CallerStorage s | None \<Rightarrow> AsyncStorageAdapter),
         auth_autoRefreshToken = nullish (autoRefreshToken config) True,
         auth_persistSession = nullish (persistSession config) True,
         auth_detectSessionInUrl = nullish (detectSessionInUrl config) False\<rparr>,
      db_schema = or_string (schema config) ''public'',
      realtime_heartbeatIntervalMs = or_number (realtimeHeartbeatIntervalMs config) (Finite 30000)\<rparr>"

text \<open>
  What the holder's code takes from outside the package: the \<^verbatim>\<open>URL\<close> class,
  the engine's message for a property read on \<^verbatim>\<open>null\<close>, and the SDK's
  \<^verbatim>\<open>createClient\<close>, which returns a client or throws.
\<close>

record ('c, 's) js_env =
  URL_protocol :: "string \<Rightarrow> string option"
  nullish_message :: string
  createClient :: "string \<Rightarrow> string \<Rightarrow> 's client_options \<Rightarrow> js_thrown + 'c"

text \<open>The three private fields of \<^verbatim>\<open>SupabaseClientSingleton\<close>.\<close>

record ('c, 's) holder =
  client :: "'c option"
  initializationError :: "string option"
  config :: "'s SupabaseConfig option"

definition empty_holder :: "('c, 's) holder" where
  "empty_holder = \<lparr>client = None, initializationError = None, config = None\<rparr>"

text \<open>
  The body of the \<^verbatim>\<open>try\<close> block of \<^verbatim>\<open>initialize\<close>: it returns a
  value or throws, and in both cases leaves the fields as assigned so far.
\<close>

definition initialize_try ::
  "('c, 's) js_env \<Rightarrow> ('c, 's) holder \<Rightarrow> 's SupabaseConfig option
     \<Rightarrow> (js_thrown + 'c option) \<times> ('c, 's) holder"
where
  "initialize_try E h arg =
     (case validateSupabaseConfig (URL_protocol E) (nullish_message E) arg of
        Inl e \<Rightarrow> (Inl e, h)
      | Inr validation \<Rightarrow>
          if \<not> valid validation then
            (Inr None,
             h\<lparr>initializationError := Some (or_string (error validation) ''Invalid configuration'')\<rparr>)
          else
            (case arg of
               None \<Rightarrow> (Inl (ErrorObject (nullish_message E)), h)
             | Some cfg \<Rightarrow>
                 let h1 = h\<lparr>config := Some cfg\<rparr> in
                 (case createClient E (str_of (url cfg)) (str_of (anonKey cfg))
                         (client_options_of cfg) of
                    Inl e \<Rightarrow> (Inl e, h1)
                  | Inr c \<Rightarrow> (Inr (Some c), h1\<lparr>client := Some c\<rparr>))))"

definition catch_message :: "js_thrown \<Rightarrow> string" where
  "catch_message e =
     (case e of ErrorObject m \<Rightarrow> m | NonError v \<Rightarrow> ''Failed to initialize Supabase client'')"

text \<open>
  \<^verbatim>\<open>initialize(config)\<close>: the outcome (\<^term>\<open>Inl\<close> would be an exception
  leaving the method, \<^term>\<open>Inr None\<close> is \<^verbatim>\<open>null\<close>) and the holder after.
\<close>

definition initialize ::
  "('c, 's) js_env \<Rightarrow> ('c, 's) holder \<Rightarrow> 's SupabaseConfig option
     \<Rightarrow> (js_thrown + 'c option) \<times> ('c, 's) holder"
where
  "initialize E h arg =
     (case client h of
        Some c \<Rightarrow> (Inr (Some c), h)
      | None \<Rightarrow>
          if truthy_string (initializationError h) then (Inr None, h)
          else
            (case initialize_try E h arg of
               (Inr r, h') \<Rightarrow> (Inr r, h')
             | (Inl e, h') \<Rightarrow> (Inr None, h'\<lparr>initializationError := Some (catch_message e)\<rparr>)))"

definition getClient :: "('c, 's) holder \<Rightarrow> (SupabaseError + 'c) \<times> ('c, 's) holder" where
  "getClient h =
     (case client h of
        None \<Rightarrow>
          (Inl (SupabaseInitializationError
                  (or_string (initializationError h)
                     ''Supabase client not initialized. Call initialize() first with configuration.'')
                  None),
           h)
      | Some c \<Rightarrow> (Inr c, h))"

definition isInitialized :: "('c, 's) holder \<Rightarrow> bool \<times> ('c, 's) holder" where
  "isInitialized h = (client h \<noteq> None, h)"

definition getInitializationError :: "('c, 's) holder \<Rightarrow> string option \<times> ('c, 's) holder" where
  "getInitializationError h = (initializationError h, h)"

definition reset :: "('c, 's) holder \<Rightarrow> unit \<times> ('c, 's) holder" where
  "reset h = ((), h\<lparr>client := None, initializationError := None, config := None\<rparr>)"

section \<open>Clearing the session cache\<close>

text \<open>
  \<^verbatim>\<open>clearSessionCache\<close> talks to the stored client and to the platform's
  \<^verbatim>\<open>AsyncStorage\<close>. The persistent store is a list of key/value entries. Each
  awaited call either completes or rejects with a thrown value; a call that writes also
  leaves a store behind.
\<close>

type_synonym kv_store = "(string \<times> string) list"

record 'c platform =
  signOut :: "'c \<Rightarrow> kv_store \<Rightarrow> js_thrown option \<times> kv_store"
  getAllKeys :: "kv_store \<Rightarrow> js_thrown + string list"
  multiRemove :: "string list \<Rightarrow> kv_store \<Rightarrow> js_thrown option \<times> kv_store"

text \<open>The filter of \<^verbatim>\<open>clearSessionCache\<close> over the enumerated keys.\<close>

definition is_session_key :: "string \<Rightarrow> bool" where
  "is_session_key key =
     (includes_js key ''supabase'' \<or> includes_js key ''auth'' \<or> includes_js key ''session''
      \<or> includes_js key ''sb-'')"

text \<open>The body of the \<^verbatim>\<open>try\<close> block: what it throws, if anything, and the store after.\<close>

definition clearSessionCache_try ::
  "'c platform \<Rightarrow> ('c, 's) holder \<Rightarrow> kv_store \<Rightarrow> js_thrown option \<times> kv_store"
where
  "clearSessionCache_try P h w =
     (case client h of
        None \<Rightarrow> (None, w)
      | Some c \<Rightarrow>
          (case signOut P c w of
             (Some e, w1) \<Rightarrow> (Some e, w1)
           | (None, w1) \<Rightarrow>
               (case getAllKeys P w1 of
                  Inl e \<Rightarrow> (Some e, w1)
                | Inr keys \<Rightarrow>
                    let sessionKeys = filter is_session_key keys in
                    if length sessionKeys > 0 then multiRemove P sessionKeys w1
                    else (None, w1))))"

text \<open>
  \<^verbatim>\<open>clearSessionCache()\<close>: what the returned promise rejects with
  (\<^term>\<open>None\<close> when it resolves), the holder after and the store after. The
  \<^verbatim>\<open>catch\<close> clause is empty.
\<close>

definition clearSessionCache ::
  "'c platform \<Rightarrow> ('c, 's) holder \<Rightarrow> kv_store \<Rightarrow> js_thrown option \<times> ('c, 's) holder \<times> kv_store"
where
  "clearSessionCache P h w =
     (case clearSessionCache_try P h w of
        (None, w') \<Rightarrow> (None, h, w')
      | (Some e, w') \<Rightarrow> (None, h, w'))"

text \<open>
  \<^verbatim>\<open>AsyncStorage\<close> as documented, when no call fails: \<^verbatim>\<open>getAllKeys\<close>
  lists the stored keys and \<^verbatim>\<open>multiRemove\<close> deletes the entries of the given keys.
\<close>

definition AsyncStorage_getAllKeys :: "kv_store \<Rightarrow> js_thrown + string list" where
  "AsyncStorage_getAllKeys w = Inr (map fst w)"

definition AsyncStorage_multiRemove :: "string list \<Rightarrow> kv_store \<Rightarrow> js_thrown option \<times> kv_store" where
  "AsyncStorage_multiRemove keys w = (None, filter (\<lambda>entry. fst entry \<notin> set keys) w)"

section \<open>Sequences of calls\<close>

text \<open>
  One call of the public API together with what the outside world does during that call:
  the environment of an \<^verbatim>\<open>initialize\<close>, the platform and store of a
  \<^verbatim>\<open>clearSessionCache\<close>.
\<close>

datatype ('c, 's) call =
    Initialize "('c, 's) js_env" "'s SupabaseConfig option"
  | GetClient
  | IsInitialized
  | GetInitializationError
  | ClearSessionCache "'c platform" kv_store
  | Reset

fun exec :: "('c, 's) call \<Rightarrow> ('c, 's) holder \<Rightarrow> ('c, 's) holder" where
  "exec (Initialize E arg) h = snd (initialize E h arg)"
| "exec GetClient h = snd (getClient h)"
| "exec IsInitialized h = snd (isInitialized h)"
| "exec GetInitializationError h = snd (getInitializationError h)"
| "exec (ClearSessionCache P w) h = fst (snd (clearSessionCache P h w))"
| "exec Reset h = snd (reset h)"

fun run :: "('c, 's) call list \<Rightarrow> ('c, 's) holder \<Rightarrow> ('c, 's) holder" where
  "run [] h = h"
| "run (c # cs) h = run cs (exec c h)"

fun is_Reset :: "('c, 's) call \<Rightarrow> bool" where
  "is_Reset Reset = True"
| "is_Reset _ = False"

section \<open>Concrete environments\<close>

text \<open>
  A stand-in for the platform's \<^verbatim>\<open>URL\<close> class, to run the model on concrete
  inputs. It reads the scheme as the URL standard does (an ASCII letter, then letters,
  digits, \<open>+\<close>, \<open>-\<close>, \<open>.\<close> up to a colon, lower-cased) and fails when there is
  none; it reports no failure of the later parsing states.
\<close>

definition ascii_alpha :: "char \<Rightarrow> bool" where
  "ascii_alpha c =
     (let n = (of_char c :: nat) in (65 \<le> n \<and> n \<le> 90) \<or> (97 \<le> n \<and> n \<le> 122))"

definition scheme_char :: "char \<Rightarrow> bool" where
  "scheme_char c =
     (let n = (of_char c :: nat) in
      ascii_alpha c \<or> (48 \<le> n \<and> n \<le> 57) \<or> n = 43 \<or> n = 45 \<or> n = 46)"

definition ascii_lower :: "char \<Rightarrow> char" where
  "ascii_lower c =
     (let n = (of_char c :: nat) in if 65 \<le> n \<and> n \<le> 90 then char_of (n + 32) else c)"

definition scheme_protocol :: "string \<Rightarrow> string option" where
  "scheme_protocol u =
     (case u of
        [] \<Rightarrow> None
      | c # _ \<Rightarrow>
          if \<not> ascii_alpha c then None
          else
            (case dropWhile scheme_char u of
               [] \<Rightarrow> None
             | d # _ \<Rightarrow>
                 if d = CHR '':'' then Some (map ascii_lower (takeWhile scheme_char u) @ '':'')
                 else None))"

text \<open>
  An SDK whose client is the record of the arguments it was constructed with, and SDKs
  that throw.
\<close>

type_synonym 's recorded_client = "string \<times> string \<times> 's client_options"

definition recording_env :: "('s recorded_client, 's) js_env" where
  "recording_env =
     \<lparr>URL_protocol = scheme_protocol,
      nullish_message = ''Cannot read property of null'',
      createClient = (\<lambda>u k opts. Inr (u, k, opts))\<rparr>"

definition throwing_env :: "js_thrown \<Rightarrow> ('s recorded_client, 's) js_env" where
  "throwing_env e = recording_env\<lparr>createClient := (\<lambda>u k opts. Inl e)\<rparr>"

definition plain_config :: "string \<Rightarrow> string \<Rightarrow> nat SupabaseConfig" where
  "plain_config u k =
     \<lparr>url = JString u, anonKey = JString k, storage = None, schema = None,
      realtimeHeartbeatIntervalMs = None, autoRefreshToken = None, persistSession = None,
      detectSessionInUrl = None\<rparr>"

definition example_config :: "nat SupabaseConfig" where
  "example_config = plain_config ''https://x.supabase.co'' ''abc123''"

definition other_config :: "nat SupabaseConfig" where
  "other_config = plain_config ''https://y.supabase.co'' ''def456''"

definition malformed_config :: "nat SupabaseConfig" where
  "malformed_config = plain_config ''not-a-url'' ''abc123''"

definition recorded_client_of :: "'s SupabaseConfig \<Rightarrow> 's recorded_client" where
  "recorded_client_of cfg = (str_of (url cfg), str_of (anonKey cfg), client_options_of cfg)"

text \<open>The holder after a construction that threw an \<^verbatim>\<open>Error\<close> with an empty message.\<close>

definition empty_message_failure :: "(nat recorded_client, nat) holder" where
  "empty_message_failure =
     snd (initialize (throwing_env (ErrorObject [])) empty_holder (Some example_config))"

text \<open>The stored keys of the specification's example, and platforms over them.\<close>

definition example_store :: kv_store where
  "example_store =
     [(''sb-access-token'', ''t1''), (''user-settings'', ''s1''),
      (''supabase.auth.token'', ''t2''), (''theme'', ''dark'')]"

definition working_platform :: "'c platform" where
  "working_platform =
     \<lparr>signOut = (\<lambda>c w. (None, w)),
      getAllKeys = AsyncStorage_getAllKeys,
      multiRemove = AsyncStorage_multiRemove\<rparr>"

definition failing_remove_platform :: "'c platform" where
  "failing_remove_platform =
     working_platform\<lparr>multiRemove := (\<lambda>keys w. (Some (ErrorObject ''disk full''), w))\<rparr>"

definition failing_signOut_platform :: "'c platform" where
  "failing_signOut_platform =
     working_platform\<lparr>signOut := (\<lambda>c w. (Some (ErrorObject ''network down''), w))\<rparr>"

definition failing_keys_platform :: "'c platform" where
  "failing_keys_platform =
     working_platform\<lparr>getAllKeys := (\<lambda>w. Inl (NonError JUndefined))\<rparr>"

text \<open>
  A configuration that sets every optional field, one that sets the schema and the
  heartbeat to falsy values, and one whose heartbeat is \<^verbatim>\<open>NaN\<close>.
\<close>

definition custom_config :: "nat SupabaseConfig" where
  "custom_config =
     example_config\<lparr>storage := Some 5, schema := Some ''app'',
       realtimeHeartbeatIntervalMs := Some (Finite 15000), autoRefreshToken := Some False,
       persistSession := Some False, detectSessionInUrl := Some True\<rparr>"

definition falsy_settings_config :: "nat SupabaseConfig" where
  "falsy_settings_config =
     example_config\<lparr>schema := Some [], realtimeHeartbeatIntervalMs := Some (Finite 0)\<rparr>"

definition nan_heartbeat_config :: "nat SupabaseConfig" where
  "nan_heartbeat_config = example_config\<lparr>realtimeHeartbeatIntervalMs := Some NaN\<rparr>"

section \<open>Evaluation of the concrete environments\<close>

lemma scheme_protocol_examples:
  "scheme_protocol ''https://x.supabase.co'' = Some ''https:''"
  "scheme_protocol ''https://y.supabase.co'' = Some ''https:''"
  "scheme_protocol ''https://your-project.supabase.co'' = Some ''https:''"
  "scheme_protocol ''ftp://x.supabase.co'' = Some ''ftp:''"
  "scheme_protocol ''not-a-url'' = None"
  by (simp_all add: scheme_protocol_def ascii_alpha_def scheme_char_def ascii_lower_def)

lemma trim_examples:
  "trim ''abc123'' = ''abc123''"
  "trim ''def456'' = ''def456''"
  "trim ''   '' = []"
  "trim ''your_supabase_anon_key'' = ''your_supabase_anon_key''"
  by (simp_all add: trim_def js_whitespace_def)

lemma validate_plain:
  "validateSupabaseConfig scheme_protocol m (Some (plain_config u k)) =
     (if u = [] then Inr (invalid ''Supabase URL is required and must be a string'')
      else if k = [] then Inr (invalid ''Supabase anon key is required and must be a string'')
      else case scheme_protocol u of
             None \<Rightarrow> Inr (invalid ''Invalid Supabase URL format'')
           | Some p \<Rightarrow>
               if p \<noteq> ''http:'' \<and> p \<noteq> ''https:'' then
                 Inr (invalid ''Supabase URL must use http:// or https:// protocol'')
               else if trim k = [] then Inr (invalid ''Supabase anon key cannot be empty'')
               else if includes_js k ''your_supabase_anon_key'' \<or> includes_js u ''your-project''
               then Inr (invalid ''Please replace placeholder values with actual Supabase credentials'')
               else Inr \<lparr>valid = True, error = None\<rparr>)"
  by (simp add: validateSupabaseConfig_def plain_config_def split: option.splits)

lemma validate_examples:
  "validateSupabaseConfig scheme_protocol m (Some example_config) = Inr \<lparr>valid = True, error = None\<rparr>"
  "validateSupabaseConfig scheme_protocol m (Some other_config) = Inr \<lparr>valid = True, error = None\<rparr>"
  "validateSupabaseConfig scheme_protocol m (Some malformed_config) =
     Inr (invalid ''Invalid Supabase URL format'')"
  by (simp_all add: validate_plain example_config_def other_config_def malformed_config_def
      scheme_protocol_examples trim_examples)

lemma env_fields:
  "URL_protocol recording_env = scheme_protocol"
  "createClient recording_env = (\<lambda>u k opts. Inr (u, k, opts))"
  "URL_protocol (throwing_env e) = scheme_protocol"
  "createClient (throwing_env e) = (\<lambda>u k opts. Inl e)"
  by (simp_all add: recording_env_def throwing_env_def)

lemma holder_fields:
  "client empty_holder = None"
  "initializationError empty_holder = None"
  "config empty_holder = None"
  by (simp_all add: empty_holder_def)

section \<open>How one call of initialize goes\<close>

lemma initialize_initialized:
  "client h = Some c \<Longrightarrow> initialize E h arg = (Inr (Some c), h)"
  by (simp add: initialize_def)

lemma initialize_locked:
  "client h = None \<Longrightarrow> truthy_string (initializationError h) \<Longrightarrow>
   initialize E h arg = (Inr None, h)"
  by (simp add: initialize_def)

lemma initialize_nullish:
  "client h = None \<Longrightarrow> \<not> truthy_string (initializationError h) \<Longrightarrow>
   initialize E h None = (Inr None, h\<lparr>initializationError := Some (nullish_message E)\<rparr>)"
  by (simp add: initialize_def initialize_try_def validateSupabaseConfig_def catch_message_def)

lemma initialize_invalid:
  "client h = None \<Longrightarrow> \<not> truthy_string (initializationError h) \<Longrightarrow>
   validateSupabaseConfig (URL_protocol E) (nullish_message E) (Some cfg) = Inr v \<Longrightarrow>
   \<not> valid v \<Longrightarrow>
   initialize E h (Some cfg) =
     (Inr None, h\<lparr>initializationError := Some (or_string (error v) ''Invalid configuration'')\<rparr>)"
  by (simp add: initialize_def initialize_try_def)

lemma initialize_constructed:
  "client h = None \<Longrightarrow> \<not> truthy_string (initializationError h) \<Longrightarrow>
   validateSupabaseConfig (URL_protocol E) (nullish_message E) (Some cfg) = Inr v \<Longrightarrow>
   valid v \<Longrightarrow>
   createClient E (str_of (url cfg)) (str_of (anonKey cfg)) (client_options_of cfg) = Inr c \<Longrightarrow>
   initialize E h (Some cfg) = (Inr (Some c), h\<lparr>config := Some cfg, client := Some c\<rparr>)"
  by (simp add: initialize_def initialize_try_def)

lemma initialize_construction_threw:
  "client h = None \<Longrightarrow> \<not> truthy_string (initializationError h) \<Longrightarrow>
   validateSupabaseConfig (URL_protocol E) (nullish_message E) (Some cfg) = Inr v \<Longrightarrow>
   valid v \<Longrightarrow>
   createClient E (str_of (url cfg)) (str_of (anonKey cfg)) (client_options_of cfg) = Inl e \<Longrightarrow>
   initialize E h (Some cfg) =
     (Inr None, h\<lparr>config := Some cfg, initializationError := Some (catch_message e)\<rparr>)"
  by (simp add: initialize_def initialize_try_def)

lemma initialize_example:
  "initialize recording_env empty_holder (Some example_config) =
     (Inr (Some (recorded_client_of example_config)),
      \<lparr>client = Some (recorded_client_of example_config), initializationError = None,
       config = Some example_config\<rparr>)"
  using initialize_constructed [of empty_holder recording_env example_config
      "\<lparr>valid = True, error = None\<rparr>" "recorded_client_of example_config"]
  by (simp add: env_fields validate_examples holder_fields truthy_string_def recorded_client_of_def)

lemma initialize_malformed:
  "initialize recording_env empty_holder (Some malformed_config) =
     (Inr None,
      \<lparr>client = None, initializationError = Some ''Invalid Supabase URL format'', config = None\<rparr>)"
  using initialize_invalid [of empty_holder recording_env malformed_config
      "invalid ''Invalid Supabase URL format''"]
  by (simp add: env_fields validate_examples holder_fields truthy_string_def invalid_def
      or_string_def)

lemma empty_message_failure_eq:
  "empty_message_failure =
     \<lparr>client = None, initializationError = Some [], config = Some example_config\<rparr>"
  unfolding empty_message_failure_def
  using initialize_construction_threw [of empty_holder "throwing_env (ErrorObject [])"
      example_config "\<lparr>valid = True, error = None\<rparr>" "ErrorObject []"]
  by (simp add: env_fields validate_examples holder_fields truthy_string_def catch_message_def)

section \<open>Idempotence after success\<close>

text \<open>
  C2. Once a client is stored, \<^verbatim>\<open>initialize\<close> returns that client for every
  argument and every environment, and the holder (client, error and stored first
  configuration) is the one it was.
\<close>

theorem initialize_idempotent:
  "client h = Some c \<Longrightarrow> initialize E h arg = (Inr (Some c), h)"
  by (simp add: initialize_def)

theorem initialize_idempotent_witness:
  "initialize recording_env (snd (initialize recording_env empty_holder (Some example_config)))
     (Some other_config) =
     (Inr (Some (recorded_client_of example_config)),
      \<lparr>client = Some (recorded_client_of example_config), initializationError = None,
       config = Some example_config\<rparr>)"
  using initialize_idempotent [of
      "snd (initialize recording_env empty_holder (Some example_config))"
      "recorded_client_of example_config" recording_env "Some other_config"]
  by (simp add: initialize_example)

section \<open>The retry lock\<close>

lemma clearSessionCache_holder: "fst (snd (clearSessionCache P h w)) = h"
  by (simp add: clearSessionCache_def split: prod.splits option.splits)

lemma exec_locked:
  assumes "client h = None" and "truthy_string (initializationError h)" and "\<not> is_Reset c"
  shows "exec c h = h"
proof (cases c)
  case (Initialize E arg)
  then show ?thesis using assms by (simp add: initialize_locked)
next
  case (ClearSessionCache P w)
  then show ?thesis by (simp add: clearSessionCache_holder)
next
  case Reset
  then show ?thesis using assms by simp
qed (simp_all add: getClient_def isInitialized_def getInitializationError_def split: option.splits)

lemma run_locked:
  "client h = None \<Longrightarrow> truthy_string (initializationError h) \<Longrightarrow>
   \<forall>c \<in> set cs. \<not> is_Reset c \<Longrightarrow> run cs h = h"
  by (induction cs) (simp_all add: exec_locked)

text \<open>
  Where the lock holds. In a holder with no client and a non-empty recorded error string,
  \<^verbatim>\<open>initialize\<close> returns \<^verbatim>\<open>null\<close> for every argument and every
  environment (so neither the validator nor the SDK decides anything) and leaves the
  holder as it was; this stays so across every sequence of calls without a
  \<^verbatim>\<open>reset\<close>.
\<close>

theorem retry_lock:
  assumes "client h = None" and "initializationError h = Some e" and "e \<noteq> []"
  shows "initialize E h arg = (Inr None, h) \<and>
         (\<forall>cs. (\<forall>c \<in> set cs. \<not> is_Reset c) \<longrightarrow>
               run cs h = h \<and> initialize E (run cs h) arg = (Inr None, run cs h))"
proof -
  have locked: "truthy_string (initializationError h)"
    using assms by (simp add: truthy_string_def)
  have one: "initialize E h arg = (Inr None, h)"
    using assms(1) locked by (rule initialize_locked)
  have "run cs h = h" if "\<forall>c \<in> set cs. \<not> is_Reset c" for cs
    using assms(1) locked that by (rule run_locked)
  with one show ?thesis by simp
qed

theorem retry_lock_witness:
  "initialize recording_env (snd (initialize recording_env empty_holder (Some malformed_config)))
     (Some example_config) =
     (Inr None,
      \<lparr>client = None, initializationError = Some ''Invalid Supabase URL format'', config = None\<rparr>)
   \<and> run [Initialize recording_env (Some example_config), GetClient,
           ClearSessionCache working_platform example_store,
           Initialize recording_env (Some other_config)]
        (snd (initialize recording_env empty_holder (Some malformed_config))) =
      \<lparr>client = None, initializationError = Some ''Invalid Supabase URL format'', config = None\<rparr>"
proof -
  let ?h = "snd (initialize recording_env empty_holder (Some malformed_config))"
  let ?cs = "[Initialize recording_env (Some example_config), GetClient,
              ClearSessionCache working_platform example_store,
              Initialize recording_env (Some other_config)]"
  have h: "?h = \<lparr>client = None, initializationError = Some ''Invalid Supabase URL format'',
                  config = None\<rparr>"
    by (simp add: initialize_malformed)
  have locked: "client ?h = None" "initializationError ?h = Some ''Invalid Supabase URL format''"
    "''Invalid Supabase URL format'' \<noteq> []"
    by (simp_all add: h)
  note lock = retry_lock [OF locked, of recording_env "Some example_config"]
  have one: "initialize recording_env ?h (Some example_config) = (Inr None, ?h)"
    using lock by (rule conjunct1)
  have no_reset: "\<forall>c \<in> set ?cs. \<not> is_Reset c"
    by simp
  have "run ?cs ?h = ?h"
    using lock no_reset by blast
  with one show ?thesis
    by (simp only: h)
qed

text \<open>
  A failed validation always locks: the branch records
  \<^verbatim>\<open>validation.error || 'Invalid configuration'\<close>, which is never empty.
\<close>

lemma validation_failure_locks:
  assumes "client h = None" and "\<not> truthy_string (initializationError h)"
    and "validateSupabaseConfig (URL_protocol E) (nullish_message E) (Some cfg) = Inr v"
    and "\<not> valid v"
  shows "fst (initialize E h (Some cfg)) = Inr None
    \<and> client (snd (initialize E h (Some cfg))) = None
    \<and> truthy_string (initializationError (snd (initialize E h (Some cfg))))
    \<and> initialize E' (snd (initialize E h (Some cfg))) arg =
        (Inr None, snd (initialize E h (Some cfg)))"
proof -
  let ?h' = "snd (initialize E h (Some cfg))"
  have "initialize E h (Some cfg) =
      (Inr None, h\<lparr>initializationError := Some (or_string (error v) ''Invalid configuration'')\<rparr>)"
    using assms by (rule initialize_invalid)
  moreover have "truthy_string (Some (or_string (error v) ''Invalid configuration''))"
    by (simp add: truthy_string_def or_string_def split: option.splits)
  ultimately have "fst (initialize E h (Some cfg)) = Inr None" and closed: "client ?h' = None"
    and locked: "truthy_string (initializationError ?h')"
    using assms(1) by simp_all
  moreover have "initialize E' ?h' arg = (Inr None, ?h')"
    using closed locked by (rule initialize_locked)
  ultimately show ?thesis
    by simp
qed

text \<open>
  C1 fails on the code. The \<^verbatim>\<open>catch\<close> block records \<^verbatim>\<open>error.message\<close> as
  it is, without the fallback the validation branch has. When the SDK's constructor
  throws an \<^verbatim>\<open>Error\<close> with an empty message, the call returns \<^verbatim>\<open>null\<close>, the
  error field holds the empty string and no client is stored; the guard
  \<^verbatim>\<open>if (this.initializationError)\<close> reads that string as no error, and the next
  \<^verbatim>\<open>initialize\<close> with a valid configuration, with no \<^verbatim>\<open>reset\<close> between,
  constructs and returns a client. The comment on the guard says not to retry once
  initialization has failed.
\<close>

theorem initialize_retries_after_empty_message:
  "fst (initialize (throwing_env (ErrorObject [])) empty_holder (Some example_config)) = Inr None
   \<and> empty_message_failure =
       snd (initialize (throwing_env (ErrorObject [])) empty_holder (Some example_config))
   \<and> client empty_message_failure = None
   \<and> initializationError empty_message_failure = Some []
   \<and> fst (initialize recording_env empty_message_failure (Some example_config)) =
       Inr (Some (recorded_client_of example_config))"
proof -
  let ?T = "throwing_env (ErrorObject []) :: (nat recorded_client, nat) js_env"
  have "fst (initialize ?T empty_holder (Some example_config)) = Inr None"
    using initialize_construction_threw [of empty_holder ?T example_config
        "\<lparr>valid = True, error = None\<rparr>" "ErrorObject []"]
    by (simp add: env_fields validate_examples holder_fields truthy_string_def)
  moreover have "fst (initialize recording_env empty_message_failure (Some example_config)) =
      Inr (Some (recorded_client_of example_config))"
    using initialize_constructed [of empty_message_failure recording_env example_config
        "\<lparr>valid = True, error = None\<rparr>" "recorded_client_of example_config"]
    by (simp add: empty_message_failure_eq env_fields validate_examples truthy_string_def
        recorded_client_of_def)
  moreover have "client empty_message_failure = None"
    and "initializationError empty_message_failure = Some []"
    by (simp_all add: empty_message_failure_eq)
  ultimately show ?thesis
    using empty_message_failure_def by (intro conjI)
qed

section \<open>The contract of getClient\<close>

text \<open>
  C3, as amended. \<^verbatim>\<open>getClient\<close> fails exactly when no client is stored. The
  failure is a \<^verbatim>\<open>SupabaseInitializationError\<close> with code
  \<^verbatim>\<open>INITIALIZATION_ERROR\<close>; its message is the recorded error string when one is
  recorded and is not empty, and the generic message otherwise. With a client stored it
  returns that client. It never changes the holder.
\<close>

theorem getClient_contract:
  "((\<exists>err. fst (getClient h) = Inl err) \<longleftrightarrow> client h = None)
   \<and> (\<forall>err. fst (getClient h) = Inl err \<longrightarrow>
          proto err = InitializationClass
          \<and> name err = ''SupabaseInitializationError''
          \<and> code err = Some ''INITIALIZATION_ERROR''
          \<and> message err =
              (case initializationError h of
                 None \<Rightarrow>
                   ''Supabase client not initialized. Call initialize() first with configuration.''
               | Some e \<Rightarrow>
                   if e \<noteq> [] then e
                   else
                     ''Supabase client not initialized. Call initialize() first with configuration.''))
   \<and> (\<forall>c. client h = Some c \<longrightarrow> getClient h = (Inr c, h))
   \<and> snd (getClient h) = h"
proof (cases "client h")
  case None
  then show ?thesis
    by (auto simp: getClient_def SupabaseInitializationError_def SupabaseError_new_def
        or_string_def split: option.splits)
next
  case (Some c)
  then show ?thesis
    by (simp add: getClient_def)
qed

theorem getClient_contract_witness:
  "message (projl (fst (getClient
       (snd (initialize recording_env empty_holder (Some malformed_config)))))) =
     ''Invalid Supabase URL format''
   \<and> code (projl (fst (getClient
       (snd (initialize recording_env empty_holder (Some malformed_config)))))) =
     Some ''INITIALIZATION_ERROR''
   \<and> getClient (snd (initialize recording_env empty_holder (Some example_config))) =
       (Inr (recorded_client_of example_config),
        snd (initialize recording_env empty_holder (Some example_config)))"
proof -
  let ?locked = "snd (initialize recording_env empty_holder (Some malformed_config))"
  let ?ready = "snd (initialize recording_env empty_holder (Some example_config))"
  have locked: "client ?locked = None"
    "initializationError ?locked = Some ''Invalid Supabase URL format''"
    by (simp_all add: initialize_malformed)
  have ready: "client ?ready = Some (recorded_client_of example_config)"
    by (simp add: initialize_example)
  from getClient_contract [of ?locked] locked(1)
  obtain err where err: "fst (getClient ?locked) = Inl err"
    by blast
  with getClient_contract [of ?locked] locked(2)
  have "message err = ''Invalid Supabase URL format''"
    and "code err = Some ''INITIALIZATION_ERROR''"
    by simp_all
  moreover have "getClient ?ready = (Inr (recorded_client_of example_config), ?ready)"
    using getClient_contract [of ?ready] ready by blast
  ultimately show ?thesis
    using err by simp
qed

text \<open>
  C3 as stated fails where the recorded error string is empty: the message of the failure
  is the generic one, not the recorded string.
\<close>

theorem getClient_message_counterexample:
  "client empty_message_failure = None
   \<and> initializationError empty_message_failure = Some []
   \<and> message (projl (fst (getClient empty_message_failure))) =
       ''Supabase client not initialized. Call initialize() first with configuration.''"
  by (simp add: empty_message_failure_eq getClient_def SupabaseInitializationError_def
      SupabaseError_new_def or_string_def)

section \<open>Failures of initialize are caught\<close>

text \<open>
  C5. No call of \<^verbatim>\<open>initialize\<close> ends in an exception. When the argument is
  \<^verbatim>\<open>null\<close> or \<^verbatim>\<open>undefined\<close> the validator's property read throws, and
  when the SDK's constructor throws on a validated configuration, the call returns
  \<^verbatim>\<open>null\<close> and the recorded error is the message of the thrown
  \<^verbatim>\<open>Error\<close>, or the generic message for any other thrown value. The failure is
  then what \<^verbatim>\<open>getInitializationError\<close> returns, and \<^verbatim>\<open>getClient\<close> fails.
\<close>

theorem initialize_never_throws:
  "(\<exists>r. fst (initialize E h arg) = Inr r)
   \<and> (client h = None \<and> \<not> truthy_string (initializationError h) \<longrightarrow>
        initialize E h None = (Inr None, h\<lparr>initializationError := Some (nullish_message E)\<rparr>))
   \<and> (\<forall>cfg v e.
         client h = None \<and> \<not> truthy_string (initializationError h)
         \<and> validateSupabaseConfig (URL_protocol E) (nullish_message E) (Some cfg) = Inr v
         \<and> valid v
         \<and> createClient E (str_of (url cfg)) (str_of (anonKey cfg)) (client_options_of cfg) = Inl e
         \<longrightarrow>
         initialize E h (Some cfg) =
           (Inr None,
            h\<lparr>config := Some cfg,
              initializationError :=
                Some (case e of ErrorObject m \<Rightarrow> m
                      | NonError x \<Rightarrow> ''Failed to initialize Supabase client'')\<rparr>)
         \<and> fst (getInitializationError (snd (initialize E h (Some cfg)))) =
             Some (case e of ErrorObject m \<Rightarrow> m
                   | NonError x \<Rightarrow> ''Failed to initialize Supabase client'')
         \<and> (\<exists>err. fst (getClient (snd (initialize E h (Some cfg)))) = Inl err))"
proof -
  have returns: "\<exists>r. fst (initialize E h arg) = Inr r"
    by (simp add: initialize_def split: option.splits prod.splits sum.splits)
  have nullish_arg: "initialize E h None =
      (Inr None, h\<lparr>initializationError := Some (nullish_message E)\<rparr>)"
    if "client h = None" and "\<not> truthy_string (initializationError h)"
    using that by (rule initialize_nullish)
  have threw: "initialize E h (Some cfg) =
      (Inr None, h\<lparr>config := Some cfg, initializationError := Some (catch_message e)\<rparr>)"
    if "client h = None" and "\<not> truthy_string (initializationError h)"
      and "validateSupabaseConfig (URL_protocol E) (nullish_message E) (Some cfg) = Inr v"
      and "valid v"
      and "createClient E (str_of (url cfg)) (str_of (anonKey cfg)) (client_options_of cfg) = Inl e"
    for cfg v e
    using that by (rule initialize_construction_threw)
  show ?thesis
    using returns nullish_arg threw
    by (auto simp: catch_message_def getInitializationError_def getClient_def)
qed

theorem initialize_never_throws_witness:
  "initialize (throwing_env (ErrorObject ''boom'')) empty_holder (Some example_config) =
     (Inr None,
      \<lparr>client = None, initializationError = Some ''boom'', config = Some example_config\<rparr>)
   \<and> initialize (throwing_env (NonError (JNumber (Finite 7)))) empty_holder (Some example_config) =
     (Inr None,
      \<lparr>client = None, initializationError = Some ''Failed to initialize Supabase client'',
       config = Some example_config\<rparr>)
   \<and> initialize recording_env empty_holder (None :: nat SupabaseConfig option) =
     (Inr None,
      \<lparr>client = None, initializationError = Some ''Cannot read property of null'',
       config = None\<rparr>)"
proof -
  have fresh: "client (empty_holder :: (nat recorded_client, nat) holder) = None
      \<and> \<not> truthy_string (initializationError (empty_holder :: (nat recorded_client, nat) holder))"
    by (simp add: holder_fields truthy_string_def)
  have a: "initialize (throwing_env e) empty_holder (Some example_config) =
      (Inr None,
       empty_holder\<lparr>config := Some example_config,
         initializationError :=
           Some (case e of ErrorObject m \<Rightarrow> m
                 | NonError x \<Rightarrow> ''Failed to initialize Supabase client'')\<rparr>)" for e
    using initialize_never_throws [of "throwing_env e" empty_holder "Some example_config"] fresh
    by (simp add: env_fields validate_examples)
  let ?E = "recording_env :: (nat recorded_client, nat) js_env"
  have b: "initialize ?E empty_holder None =
      (Inr None, empty_holder\<lparr>initializationError := Some (nullish_message ?E)\<rparr>)"
    using initialize_never_throws [of ?E empty_holder None] fresh
    by simp
  show ?thesis
    using a [of "ErrorObject ''boom''"] a [of "NonError (JNumber (Finite 7))"] b
    by (simp add: empty_holder_def recording_env_def)
qed

section \<open>Reset\<close>

text \<open>
  C7, as amended. After \<^verbatim>\<open>reset\<close> the three fields are empty, so
  \<^verbatim>\<open>isInitialized\<close> is false and \<^verbatim>\<open>getInitializationError\<close> returns
  nothing; and the next \<^verbatim>\<open>initialize\<close> with a configuration that passes
  validation returns the client the SDK constructs and stores it with the configuration,
  provided the SDK's constructor returns one.
\<close>

theorem reset_clears:
  "snd (reset h) = empty_holder
   \<and> fst (isInitialized (snd (reset h))) = False
   \<and> fst (getInitializationError (snd (reset h))) = None
   \<and> (\<forall>cfg v c.
         validateSupabaseConfig (URL_protocol E) (nullish_message E) (Some cfg) = Inr v
         \<and> valid v
         \<and> createClient E (str_of (url cfg)) (str_of (anonKey cfg)) (client_options_of cfg) = Inr c
         \<longrightarrow>
         initialize E (snd (reset h)) (Some cfg) =
           (Inr (Some c), \<lparr>client = Some c, initializationError = None, config = Some cfg\<rparr>)
         \<and> fst (isInitialized (snd (initialize E (snd (reset h)) (Some cfg)))) = True)"
proof -
  have cleared: "snd (reset h) = empty_holder"
    by (simp add: reset_def empty_holder_def)
  have "initialize E empty_holder (Some cfg) =
      (Inr (Some c), \<lparr>client = Some c, initializationError = None, config = Some cfg\<rparr>)"
    if "validateSupabaseConfig (URL_protocol E) (nullish_message E) (Some cfg) = Inr v"
      and "valid v"
      and "createClient E (str_of (url cfg)) (str_of (anonKey cfg)) (client_options_of cfg) = Inr c"
    for cfg v c
    using initialize_constructed [of empty_holder E cfg v c] that
    by (simp add: holder_fields truthy_string_def empty_holder_def)
  then show ?thesis
    by (auto simp: cleared isInitialized_def getInitializationError_def holder_fields)
qed

theorem reset_clears_witness:
  "snd (reset (snd (initialize recording_env empty_holder (Some malformed_config)))) =
     \<lparr>client = None, initializationError = None, config = None\<rparr>
   \<and> initialize recording_env
        (snd (reset (snd (initialize recording_env empty_holder (Some malformed_config)))))
        (Some example_config) =
       (Inr (Some (recorded_client_of example_config)),
        \<lparr>client = Some (recorded_client_of example_config), initializationError = None,
         config = Some example_config\<rparr>)"
proof -
  let ?E = "recording_env :: (nat recorded_client, nat) js_env"
  let ?h = "snd (initialize ?E empty_holder (Some malformed_config))"
  note cleared = reset_clears [of ?h ?E]
  have "snd (reset ?h) = empty_holder"
    using cleared by (rule conjunct1)
  moreover have "initialize ?E (snd (reset ?h)) (Some example_config) =
      (Inr (Some (recorded_client_of example_config)),
       \<lparr>client = Some (recorded_client_of example_config), initializationError = None,
        config = Some example_config\<rparr>)"
    using cleared [THEN conjunct2, THEN conjunct2, THEN conjunct2, THEN spec,
        THEN spec, THEN spec, of example_config "\<lparr>valid = True, error = None\<rparr>"
        "recorded_client_of example_config"]
    by (simp add: env_fields validate_examples recorded_client_of_def)
  ultimately show ?thesis
    by (simp add: empty_holder_def)
qed

text \<open>
  C7 as stated fails when the SDK's constructor throws on the validated configuration:
  the \<^verbatim>\<open>initialize\<close> after the \<^verbatim>\<open>reset\<close> returns \<^verbatim>\<open>null\<close>.
\<close>

theorem reset_then_initialize_counterexample:
  "validateSupabaseConfig (URL_protocol (throwing_env (ErrorObject ''boom'')))
     (nullish_message (throwing_env (ErrorObject ''boom''))) (Some example_config) =
     Inr \<lparr>valid = True, error = None\<rparr>
   \<and> initialize (throwing_env (ErrorObject ''boom'')) (snd (reset empty_holder))
        (Some example_config) =
       (Inr None,
        \<lparr>client = None, initializationError = Some ''boom'', config = Some example_config\<rparr>)"
  using initialize_construction_threw [of empty_holder "throwing_env (ErrorObject ''boom'')"
      example_config "\<lparr>valid = True, error = None\<rparr>" "ErrorObject ''boom''"]
  by (simp add: env_fields validate_examples holder_fields truthy_string_def catch_message_def
      reset_def)
     (simp add: empty_holder_def)

section \<open>The stored configuration after a failure\<close>

text \<open>
  C10. On the empty holder, when validation passes and the SDK's constructor throws, the
  error is recorded, no client is stored, and the stored configuration is the one that
  failed; when validation fails, the error is recorded and the stored configuration stays
  empty.
\<close>

theorem config_kept_when_construction_throws:
  "(\<forall>v e.
      validateSupabaseConfig (URL_protocol E) (nullish_message E) (Some cfg) = Inr v
      \<and> valid v
      \<and> createClient E (str_of (url cfg)) (str_of (anonKey cfg)) (client_options_of cfg) = Inl e
      \<longrightarrow>
      snd (initialize E empty_holder (Some cfg)) =
        \<lparr>client = None, initializationError = Some (catch_message e), config = Some cfg\<rparr>
      \<and> fst (isInitialized (snd (initialize E empty_holder (Some cfg)))) = False)
   \<and> (\<forall>v.
        validateSupabaseConfig (URL_protocol E) (nullish_message E) (Some cfg) = Inr v
        \<and> \<not> valid v
        \<longrightarrow>
        snd (initialize E empty_holder (Some cfg)) =
          \<lparr>client = None,
           initializationError = Some (or_string (error v) ''Invalid configuration''),
           config = None\<rparr>)"
proof -
  have threw: "snd (initialize E empty_holder (Some cfg)) =
      \<lparr>client = None, initializationError = Some (catch_message e), config = Some cfg\<rparr>"
    if "validateSupabaseConfig (URL_protocol E) (nullish_message E) (Some cfg) = Inr v"
      and "valid v"
      and "createClient E (str_of (url cfg)) (str_of (anonKey cfg)) (client_options_of cfg) = Inl e"
    for v e
    using initialize_construction_threw [of empty_holder E cfg v e] that
    by (simp add: holder_fields truthy_string_def empty_holder_def)
  have rejected: "snd (initialize E empty_holder (Some cfg)) =
      \<lparr>client = None,
       initializationError = Some (or_string (error v) ''Invalid configuration''),
       config = None\<rparr>"
    if "validateSupabaseConfig (URL_protocol E) (nullish_message E) (Some cfg) = Inr v"
      and "\<not> valid v"
    for v
    using initialize_invalid [of empty_holder E cfg v] that
    by (simp add: holder_fields truthy_string_def empty_holder_def)
  show ?thesis
    using threw rejected by (auto simp: isInitialized_def)
qed

theorem config_kept_when_construction_throws_witness:
  "snd (initialize (throwing_env (ErrorObject ''boom'')) empty_holder (Some example_config)) =
     \<lparr>client = None, initializationError = Some ''boom'', config = Some example_config\<rparr>
   \<and> snd (initialize recording_env empty_holder (Some malformed_config)) =
     \<lparr>client = None, initializationError = Some ''Invalid Supabase URL format'',
      config = None\<rparr>"
proof -
  let ?T = "throwing_env (ErrorObject ''boom'') :: (nat recorded_client, nat) js_env"
  let ?E = "recording_env :: (nat recorded_client, nat) js_env"
  have "snd (initialize ?T empty_holder (Some example_config)) =
      \<lparr>client = None, initializationError = Some (catch_message (ErrorObject ''boom'')),
       config = Some example_config\<rparr>"
    using config_kept_when_construction_throws [of ?T example_config, THEN conjunct1,
        THEN spec, THEN spec, of "\<lparr>valid = True, error = None\<rparr>" "ErrorObject ''boom''"]
    by (simp add: env_fields validate_examples)
  moreover have "snd (initialize ?E empty_holder (Some malformed_config)) =
      \<lparr>client = None,
       initializationError =
         Some (or_string (error (invalid ''Invalid Supabase URL format''))
                 ''Invalid configuration''),
       config = None\<rparr>"
    using config_kept_when_construction_throws [of ?E malformed_config, THEN conjunct2,
        THEN spec, of "invalid ''Invalid Supabase URL format''"]
    by (simp add: env_fields validate_examples invalid_def)
  ultimately show ?thesis
    by (simp add: catch_message_def invalid_def or_string_def)
qed

section \<open>The settings the client is constructed with\<close>

text \<open>
  C8, as amended. On a holder with no client and no error message, for a configuration
  that passes validation, \<^verbatim>\<open>initialize\<close> calls the SDK's constructor once, with
  the url, the key and these options: the caller's storage adapter when given and the
  default adapter otherwise; the caller's schema when given and not empty, and
  \<^verbatim>\<open>public\<close> otherwise; the caller's heartbeat interval when given and truthy
  (not a zero and not \<^verbatim>\<open>NaN\<close>), and 30000 otherwise; each of the three flags as
  given, and true, true, false when absent.
\<close>

theorem derived_settings:
  assumes "client h = None" and "\<not> truthy_string (initializationError h)"
    and "validateSupabaseConfig (URL_protocol E) (nullish_message E) (Some cfg) = Inr v"
    and "valid v"
  shows "\<exists>opts.
     initialize E h (Some cfg) =
       (case createClient E (str_of (url cfg)) (str_of (anonKey cfg)) opts of
          Inr c \<Rightarrow> (Inr (Some c), h\<lparr>config := Some cfg, client := Some c\<rparr>)
        | Inl e \<Rightarrow>
            (Inr None, h\<lparr>config := Some cfg, initializationError := Some (catch_message e)\<rparr>))
     \<and> url cfg = JString (str_of (url cfg))
     \<and> anonKey cfg = JString (str_of (anonKey cfg))
     \<and> auth_storage (auth opts) =
         (case storage cfg of Some s \<Rightarrow> CallerStorage s | None \<Rightarrow> AsyncStorageAdapter)
     \<and> db_schema opts =
         (case schema cfg of None \<Rightarrow> ''public''
          | Some s \<Rightarrow> if s = [] then ''public'' else s)
     \<and> realtime_heartbeatIntervalMs opts =
         (case realtimeHeartbeatIntervalMs cfg of None \<Rightarrow> Finite 30000
          | Some n \<Rightarrow>
              if n = Finite 0 \<or> n = NegativeZero \<or> n = NaN then Finite 30000 else n)
     \<and> auth_autoRefreshToken (auth opts) =
         (case autoRefreshToken cfg of None \<Rightarrow> True | Some b \<Rightarrow> b)
     \<and> auth_persistSession (auth opts) =
         (case persistSession cfg of None \<Rightarrow> True | Some b \<Rightarrow> b)
     \<and> auth_detectSessionInUrl (auth opts) =
         (case detectSessionInUrl cfg of None \<Rightarrow> False | Some b \<Rightarrow> b)"
proof (intro exI [of _ "client_options_of cfg"] conjI)
  show "initialize E h (Some cfg) =
      (case createClient E (str_of (url cfg)) (str_of (anonKey cfg)) (client_options_of cfg) of
         Inr c \<Rightarrow> (Inr (Some c), h\<lparr>config := Some cfg, client := Some c\<rparr>)
       | Inl e \<Rightarrow>
           (Inr None, h\<lparr>config := Some cfg, initializationError := Some (catch_message e)\<rparr>))"
    using assms by (simp add: initialize_def initialize_try_def split: sum.splits)
  have strings: "typeof (url cfg) = ''string'' \<and> typeof (anonKey cfg) = ''string''"
    using assms(3,4)
    by (auto simp: validateSupabaseConfig_def invalid_def split: if_splits)
  show "url cfg = JString (str_of (url cfg))"
    using strings by (cases "url cfg") simp_all
  show "anonKey cfg = JString (str_of (anonKey cfg))"
    using strings by (cases "anonKey cfg") simp_all
next
  show "realtime_heartbeatIntervalMs (client_options_of cfg) =
      (case realtimeHeartbeatIntervalMs cfg of None \<Rightarrow> Finite 30000
       | Some n \<Rightarrow>
           if n = Finite 0 \<or> n = NegativeZero \<or> n = NaN then Finite 30000 else n)"
  proof (cases "realtimeHeartbeatIntervalMs cfg")
    case None
    then show ?thesis
      by (simp add: client_options_of_def or_number_def)
  next
    case (Some n)
    then show ?thesis
      by (cases n) (simp_all add: client_options_of_def or_number_def)
  qed
qed (simp_all add: client_options_of_def or_string_def nullish_def)

theorem derived_settings_witness:
  "initialize recording_env empty_holder (Some custom_config) =
     (Inr (Some (''https://x.supabase.co'', ''abc123'',
        \<lparr>auth = \<lparr>auth_storage = CallerStorage 5, auth_autoRefreshToken = False,
                  auth_persistSession = False, auth_detectSessionInUrl = True\<rparr>,
         db_schema = ''app'', realtime_heartbeatIntervalMs = Finite 15000\<rparr>)),
      \<lparr>client = Some (''https://x.supabase.co'', ''abc123'',
        \<lparr>auth = \<lparr>auth_storage = CallerStorage 5, auth_autoRefreshToken = False,
                  auth_persistSession = False, auth_detectSessionInUrl = True\<rparr>,
         db_schema = ''app'', realtime_heartbeatIntervalMs = Finite 15000\<rparr>),
       initializationError = None, config = Some custom_config\<rparr>)"
proof -
  let ?E = "recording_env :: (nat recorded_client, nat) js_env"
  have ok: "validateSupabaseConfig (URL_protocol ?E) (nullish_message ?E) (Some custom_config) =
      Inr \<lparr>valid = True, error = None\<rparr>"
    by (simp add: validateSupabaseConfig_def custom_config_def example_config_def
        plain_config_def env_fields scheme_protocol_examples trim_examples)
  have fresh: "client (empty_holder :: (nat recorded_client, nat) holder) = None"
    "\<not> truthy_string (initializationError (empty_holder :: (nat recorded_client, nat) holder))"
    by (simp_all add: holder_fields truthy_string_def)
  from derived_settings [OF fresh ok]
  obtain opts :: "nat client_options" where
    run: "initialize ?E empty_holder (Some custom_config) =
       (case createClient ?E (str_of (url custom_config)) (str_of (anonKey custom_config)) opts of
          Inr c \<Rightarrow> (Inr (Some c), empty_holder\<lparr>config := Some custom_config, client := Some c\<rparr>)
        | Inl e \<Rightarrow>
            (Inr None,
             empty_holder\<lparr>config := Some custom_config,
               initializationError := Some (catch_message e)\<rparr>))"
    and fields: "auth_storage (auth opts) = CallerStorage 5" "db_schema opts = ''app''"
      "realtime_heartbeatIntervalMs opts = Finite 15000" "auth_autoRefreshToken (auth opts) = False"
      "auth_persistSession (auth opts) = False" "auth_detectSessionInUrl (auth opts) = True"
    by (auto simp: custom_config_def)
  have "opts =
      \<lparr>auth = \<lparr>auth_storage = CallerStorage 5, auth_autoRefreshToken = False,
                auth_persistSession = False, auth_detectSessionInUrl = True\<rparr>,
       db_schema = ''app'', realtime_heartbeatIntervalMs = Finite 15000\<rparr>"
    using fields by (cases opts, cases "auth opts") simp
  with run show ?thesis
    by (simp add: env_fields empty_holder_def custom_config_def example_config_def
        plain_config_def)
qed

lemma validate_example_variants:
  "validateSupabaseConfig scheme_protocol m (Some falsy_settings_config) =
     Inr \<lparr>valid = True, error = None\<rparr>"
  "validateSupabaseConfig scheme_protocol m (Some nan_heartbeat_config) =
     Inr \<lparr>valid = True, error = None\<rparr>"
  by (simp_all add: validateSupabaseConfig_def falsy_settings_config_def nan_heartbeat_config_def
      example_config_def plain_config_def scheme_protocol_examples trim_examples)

text \<open>
  C8 as stated fails for a caller who supplies the empty schema name and the heartbeat
  interval 0, and for one who supplies the heartbeat \<^verbatim>\<open>NaN\<close>: the client is
  constructed with \<^verbatim>\<open>public\<close> and 30000.
\<close>

theorem derived_settings_counterexample:
  "schema falsy_settings_config = Some []
   \<and> realtimeHeartbeatIntervalMs falsy_settings_config = Some (Finite 0)
   \<and> fst (initialize recording_env empty_holder (Some falsy_settings_config)) =
       Inr (Some (''https://x.supabase.co'', ''abc123'',
         \<lparr>auth = \<lparr>auth_storage = AsyncStorageAdapter, auth_autoRefreshToken = True,
                   auth_persistSession = True, auth_detectSessionInUrl = False\<rparr>,
          db_schema = ''public'', realtime_heartbeatIntervalMs = Finite 30000\<rparr>))
   \<and> realtimeHeartbeatIntervalMs nan_heartbeat_config = Some NaN
   \<and> fst (initialize recording_env empty_holder (Some nan_heartbeat_config)) =
       Inr (Some (''https://x.supabase.co'', ''abc123'',
         \<lparr>auth = \<lparr>auth_storage = AsyncStorageAdapter, auth_autoRefreshToken = True,
                   auth_persistSession = True, auth_detectSessionInUrl = False\<rparr>,
          db_schema = ''public'', realtime_heartbeatIntervalMs = Finite 30000\<rparr>))"
proof -
  let ?E = "recording_env :: (nat recorded_client, nat) js_env"
  have constructed: "fst (initialize ?E empty_holder (Some cfg)) = Inr (Some (recorded_client_of cfg))"
    if "validateSupabaseConfig scheme_protocol (nullish_message ?E) (Some cfg) =
        Inr \<lparr>valid = True, error = None\<rparr>" for cfg
    using initialize_constructed [of empty_holder ?E cfg "\<lparr>valid = True, error = None\<rparr>"
        "recorded_client_of cfg"] that
    by (simp add: holder_fields truthy_string_def env_fields recorded_client_of_def)
  have falsy: "recorded_client_of falsy_settings_config =
      (''https://x.supabase.co'', ''abc123'',
       \<lparr>auth = \<lparr>auth_storage = AsyncStorageAdapter, auth_autoRefreshToken = True,
                 auth_persistSession = True, auth_detectSessionInUrl = False\<rparr>,
        db_schema = ''public'', realtime_heartbeatIntervalMs = Finite 30000\<rparr>)"
    by (simp add: recorded_client_of_def client_options_of_def or_string_def or_number_def
        nullish_def falsy_settings_config_def example_config_def plain_config_def)
  have nan: "recorded_client_of nan_heartbeat_config =
      (''https://x.supabase.co'', ''abc123'',
       \<lparr>auth = \<lparr>auth_storage = AsyncStorageAdapter, auth_autoRefreshToken = True,
                 auth_persistSession = True, auth_detectSessionInUrl = False\<rparr>,
        db_schema = ''public'', realtime_heartbeatIntervalMs = Finite 30000\<rparr>)"
    by (simp add: recorded_client_of_def client_options_of_def or_string_def or_number_def
        nullish_def nan_heartbeat_config_def example_config_def plain_config_def)
  show ?thesis
    using constructed [OF validate_example_variants(1)] constructed [OF validate_example_variants(2)]
    by (simp add: falsy nan)
       (simp add: falsy_settings_config_def nan_heartbeat_config_def)
qed

section \<open>What clearing the session cache deletes\<close>

lemma startsWith_append: "startsWith (t @ s) t"
  by (induction t) simp_all

lemma startsWith_iff: "startsWith s t \<longleftrightarrow> (\<exists>r. s = t @ r)"
proof (induction s t rule: startsWith.induct)
  case (3 a s c t)
  then show ?case by auto
qed simp_all

lemma includes_js_iff: "includes_js s t \<longleftrightarrow> (\<exists>p r. s = p @ t @ r)"
proof (induction s)
  case Nil
  then show ?case by simp
next
  case (Cons a s)
  show ?case
  proof
    assume "includes_js (a # s) t"
    then consider "startsWith (a # s) t" | "includes_js s t"
      by auto
    then show "\<exists>p r. a # s = p @ t @ r"
    proof cases
      case 1
      then obtain r where "a # s = t @ r"
        by (auto simp: startsWith_iff)
      then have "a # s = [] @ t @ r"
        by simp
      then show ?thesis
        by blast
    next
      case 2
      with Cons.IH obtain p r where "s = p @ t @ r"
        by blast
      then have "a # s = (a # p) @ t @ r"
        by simp
      then show ?thesis
        by blast
    qed
  next
    assume "\<exists>p r. a # s = p @ t @ r"
    then obtain p r where eq: "a # s = p @ t @ r"
      by blast
    show "includes_js (a # s) t"
    proof (cases p)
      case Nil
      with eq have "startsWith (a # s) t"
        by (metis append_Nil startsWith_append)
      then show ?thesis
        by simp
    next
      case (Cons b q)
      with eq have "s = q @ t @ r"
        by simp
      with Cons.IH have "includes_js s t"
        by blast
      then show ?thesis
        by simp
    qed
  qed
qed

lemma remove_session_keys:
  "filter (\<lambda>entry. fst entry \<notin> set (filter is_session_key (map fst w))) w =
   filter (\<lambda>entry. \<not> is_session_key (fst entry)) w"
  by (rule filter_cong) auto

lemma clearSessionCache_resolves: "fst (clearSessionCache P h w) = None"
  by (simp add: clearSessionCache_def split: prod.splits option.splits)

lemma clearSessionCache_removes:
  assumes "client h = Some c" and "signOut P c w = (None, w1)"
    and "getAllKeys P = AsyncStorage_getAllKeys" and "multiRemove P = AsyncStorage_multiRemove"
  shows "snd (snd (clearSessionCache P h w)) = filter (\<lambda>entry. \<not> is_session_key (fst entry)) w1"
proof (cases "filter is_session_key (map fst w1) = []")
  case True
  then have "filter (\<lambda>entry. \<not> is_session_key (fst entry)) w1 = w1"
    by (auto simp: filter_empty_conv filter_id_conv)
  with True assms show ?thesis
    by (simp add: clearSessionCache_def clearSessionCache_try_def AsyncStorage_getAllKeys_def)
next
  case False
  with assms have "snd (snd (clearSessionCache P h w)) =
      filter (\<lambda>entry. fst entry \<notin> set (filter is_session_key (map fst w1))) w1"
    by (simp add: clearSessionCache_def clearSessionCache_try_def AsyncStorage_getAllKeys_def
        AsyncStorage_multiRemove_def)
  then show ?thesis
    by (simp only: remove_session_keys)
qed

text \<open>
  C6. Whatever the client's sign-out and the store's calls do, the promise of
  \<^verbatim>\<open>clearSessionCache\<close> resolves and the holder is unchanged. With a client
  stored, a sign-out that completes and a store that works as documented, the store
  afterwards holds exactly the entries left by the sign-out whose key contains none of
  \<^verbatim>\<open>supabase\<close>, \<^verbatim>\<open>auth\<close>, \<^verbatim>\<open>session\<close>, \<^verbatim>\<open>sb-\<close>, each with
  its value. With no client stored nothing is touched.
\<close>

theorem clearSessionCache_contract:
  "fst (clearSessionCache P h w) = None
   \<and> fst (snd (clearSessionCache P h w)) = h
   \<and> (\<forall>c w1.
         client h = Some c \<and> signOut P c w = (None, w1)
         \<and> getAllKeys P = AsyncStorage_getAllKeys \<and> multiRemove P = AsyncStorage_multiRemove
         \<longrightarrow>
         snd (snd (clearSessionCache P h w)) =
           filter (\<lambda>entry. \<not> (\<exists>p r. fst entry = p @ ''supabase'' @ r)
                          \<and> \<not> (\<exists>p r. fst entry = p @ ''auth'' @ r)
                          \<and> \<not> (\<exists>p r. fst entry = p @ ''session'' @ r)
                          \<and> \<not> (\<exists>p r. fst entry = p @ ''sb-'' @ r)) w1)
   \<and> (client h = None \<longrightarrow> snd (snd (clearSessionCache P h w)) = w)"
proof -
  have keys: "(\<lambda>entry :: string \<times> string. \<not> is_session_key (fst entry)) =
      (\<lambda>entry. \<not> (\<exists>p r. fst entry = p @ ''supabase'' @ r)
              \<and> \<not> (\<exists>p r. fst entry = p @ ''auth'' @ r)
              \<and> \<not> (\<exists>p r. fst entry = p @ ''session'' @ r)
              \<and> \<not> (\<exists>p r. fst entry = p @ ''sb-'' @ r))"
    by (simp only: is_session_key_def includes_js_iff de_Morgan_disj)
  have untouched: "snd (snd (clearSessionCache P h w)) = w" if "client h = None"
    using that by (simp add: clearSessionCache_def clearSessionCache_try_def)
  show ?thesis
    using clearSessionCache_resolves [of P h w] clearSessionCache_holder [of P h w]
      clearSessionCache_removes [of h _ P w] untouched
    by (simp only: keys [symmetric]) blast
qed

theorem clearSessionCache_contract_witness:
  "clearSessionCache working_platform
     \<lparr>client = Some (recorded_client_of example_config), initializationError = None,
      config = Some example_config\<rparr>
     example_store =
     (None,
      \<lparr>client = Some (recorded_client_of example_config), initializationError = None,
       config = Some example_config\<rparr>,
      [(''user-settings'', ''s1''), (''theme'', ''dark'')])
   \<and> fst (clearSessionCache failing_signOut_platform
        \<lparr>client = Some (recorded_client_of example_config), initializationError = None,
         config = Some example_config\<rparr>
        example_store) = None
   \<and> fst (clearSessionCache failing_keys_platform
        \<lparr>client = Some (recorded_client_of example_config), initializationError = None,
         config = Some example_config\<rparr>
        example_store) = None
   \<and> fst (clearSessionCache failing_remove_platform
        \<lparr>client = Some (recorded_client_of example_config), initializationError = None,
         config = Some example_config\<rparr>
        example_store) = None"
proof -
  let ?P = "working_platform :: nat recorded_client platform"
  let ?h = "\<lparr>client = Some (recorded_client_of example_config), initializationError = None,
            config = Some example_config\<rparr>"
  note ok = clearSessionCache_contract [of ?P ?h example_store]
  have "snd (snd (clearSessionCache ?P ?h example_store)) =
      filter (\<lambda>entry. \<not> (\<exists>p r. fst entry = p @ ''supabase'' @ r)
                     \<and> \<not> (\<exists>p r. fst entry = p @ ''auth'' @ r)
                     \<and> \<not> (\<exists>p r. fst entry = p @ ''session'' @ r)
                     \<and> \<not> (\<exists>p r. fst entry = p @ ''sb-'' @ r)) example_store"
    using ok [THEN conjunct2, THEN conjunct2, THEN conjunct1, THEN spec, THEN spec,
        of "recorded_client_of example_config" example_store]
    by (simp add: working_platform_def)
  also have "\<dots> = [(''user-settings'', ''s1''), (''theme'', ''dark'')]"
    by (simp only: includes_js_iff [symmetric]) (simp add: example_store_def)
  finally have store: "snd (snd (clearSessionCache ?P ?h example_store)) =
      [(''user-settings'', ''s1''), (''theme'', ''dark'')]" .
  have "fst (clearSessionCache ?P ?h example_store) = None"
    and "fst (snd (clearSessionCache ?P ?h example_store)) = ?h"
    using ok by blast+
  with store have "clearSessionCache ?P ?h example_store =
      (None, ?h, [(''user-settings'', ''s1''), (''theme'', ''dark'')])"
    by (metis prod.collapse)
  moreover have "fst (clearSessionCache Q ?h example_store) = None"
    for Q :: "nat recorded_client platform"
    using clearSessionCache_contract [of Q ?h example_store] by (rule conjunct1)
  ultimately show ?thesis
    by simp
qed

section \<open>A client and an error are not held together\<close>

lemma exec_keeps_exclusion:
  assumes "client h \<noteq> None \<longrightarrow> \<not> truthy_string (initializationError h)"
  shows "client (exec c h) \<noteq> None \<longrightarrow> \<not> truthy_string (initializationError (exec c h))"
proof (cases c)
  case (Initialize E arg)
  show ?thesis
  proof (cases "client h")
    case (Some k)
    with assms Initialize show ?thesis
      by (simp add: initialize_initialized)
  next
    case None
    with Initialize show ?thesis
      by (auto simp: initialize_def initialize_try_def Let_def
          split: sum.splits option.splits if_splits)
  qed
next
  case (ClearSessionCache P w)
  with assms show ?thesis
    by (simp add: clearSessionCache_holder)
next
  case Reset
  then show ?thesis
    by (simp add: reset_def)
qed (use assms in \<open>simp_all add: getClient_def isInitialized_def getInitializationError_def
      split: option.splits\<close>)

lemma run_keeps_exclusion:
  "client h \<noteq> None \<longrightarrow> \<not> truthy_string (initializationError h) \<Longrightarrow>
   client (run cs h) \<noteq> None \<longrightarrow> \<not> truthy_string (initializationError (run cs h))"
proof (induction cs arbitrary: h)
  case Nil
  then show ?case by simp
next
  case (Cons c cs)
  from Cons.prems have "client (exec c h) \<noteq> None \<longrightarrow>
      \<not> truthy_string (initializationError (exec c h))"
    by (rule exec_keeps_exclusion)
  then show ?case
    using Cons.IH by simp
qed

text \<open>
  What holds in every holder reached from the empty one by any sequence of calls, under
  any behaviour of the SDK and the platform at each call: a stored client comes with no
  error message. The error field is then unset or holds the empty string.
\<close>

theorem client_excludes_error:
  "(client (run cs empty_holder) \<noteq> None \<longrightarrow>
      initializationError (run cs empty_holder) = None
      \<or> initializationError (run cs empty_holder) = Some [])
   \<and> (fst (isInitialized (run cs empty_holder)) \<longrightarrow>
        fst (getInitializationError (run cs empty_holder)) = None
        \<or> fst (getInitializationError (run cs empty_holder)) = Some [])"
proof -
  have "client (run cs empty_holder) \<noteq> None \<longrightarrow>
      \<not> truthy_string (initializationError (run cs empty_holder))"
    by (rule run_keeps_exclusion) (simp add: holder_fields)
  then show ?thesis
    by (auto simp: truthy_string_def isInitialized_def getInitializationError_def
        split: option.splits)
qed

theorem client_excludes_error_witness:
  "client (run [Initialize recording_env (Some malformed_config), GetClient, Reset,
                Initialize recording_env (Some example_config), IsInitialized]
             empty_holder) = Some (recorded_client_of example_config)
   \<and> (initializationError
        (run [Initialize recording_env (Some malformed_config), GetClient, Reset,
              Initialize recording_env (Some example_config), IsInitialized]
           empty_holder) = None
      \<or> initializationError
        (run [Initialize recording_env (Some malformed_config), GetClient, Reset,
              Initialize recording_env (Some example_config), IsInitialized]
           empty_holder) = Some [])"
proof -
  let ?cs = "[Initialize recording_env (Some malformed_config), GetClient, Reset,
              Initialize recording_env (Some example_config), IsInitialized]"
  have stored: "client (run ?cs empty_holder) = Some (recorded_client_of example_config)"
    by (simp add: initialize_malformed getClient_def reset_def isInitialized_def
        initialize_example [unfolded empty_holder_def])
  then have "client (run ?cs empty_holder) \<noteq> None"
    by (simp only: option.distinct not_False_eq_True)
  moreover have "client (run ?cs empty_holder) \<noteq> None \<longrightarrow>
      initializationError (run ?cs empty_holder) = None
      \<or> initializationError (run ?cs empty_holder) = Some []"
    using client_excludes_error [of ?cs] by (rule conjunct1)
  ultimately have "initializationError (run ?cs empty_holder) = None
      \<or> initializationError (run ?cs empty_holder) = Some []"
    by (rule rev_mp)
  with stored show ?thesis
    by (rule conjI)
qed

text \<open>
  C9 fails on the code, through the gap in the retry guard: a construction that threw an
  \<^verbatim>\<open>Error\<close> with an empty message is recorded as the empty string, the next
  \<^verbatim>\<open>initialize\<close> is let through and succeeds, and the holder then has a client
  stored while the error field still holds the recorded string:
  \<^verbatim>\<open>isInitialized()\<close> is true and \<^verbatim>\<open>getInitializationError()\<close> returns
  a string, not \<^verbatim>\<open>null\<close>.
\<close>

theorem client_stored_with_error_string:
  "run [Initialize (throwing_env (ErrorObject [])) (Some example_config),
        Initialize recording_env (Some example_config)] empty_holder =
     \<lparr>client = Some (recorded_client_of example_config), initializationError = Some [],
      config = Some example_config\<rparr>
   \<and> fst (isInitialized
        (run [Initialize (throwing_env (ErrorObject [])) (Some example_config),
              Initialize recording_env (Some example_config)] empty_holder)) = True
   \<and> fst (getInitializationError
        (run [Initialize (throwing_env (ErrorObject [])) (Some example_config),
              Initialize recording_env (Some example_config)] empty_holder)) = Some []"
proof -
  have "run [Initialize (throwing_env (ErrorObject [])) (Some example_config),
        Initialize recording_env (Some example_config)] empty_holder =
     \<lparr>client = Some (recorded_client_of example_config), initializationError = Some [],
      config = Some example_config\<rparr>"
    using initialize_constructed [of empty_message_failure recording_env example_config
        "\<lparr>valid = True, error = None\<rparr>" "recorded_client_of example_config"]
    by (simp add: empty_message_failure_def [symmetric])
       (simp add: empty_message_failure_eq env_fields validate_examples truthy_string_def
        recorded_client_of_def)
  then show ?thesis
    by (simp add: isInitialized_def getInitializationError_def)
qed

section \<open>The validator and the ordered checks\<close>

lemma present_string_iff: "present_string v \<longleftrightarrow> truthy v \<and> typeof v = ''string''"
  by (cases v) (simp_all add: present_string_def)

lemma first_failure_valid: "valid (first_failure cs) \<longleftrightarrow> list_all fst cs"
  by (induction cs rule: first_failure.induct) simp_all

lemma first_failure_message:
  "\<not> valid (first_failure cs) \<Longrightarrow> \<exists>c \<in> set cs. error (first_failure cs) = Some (snd c)"
  by (induction cs rule: first_failure.induct) (auto split: if_splits)

lemma first_failure_no_error: "valid (first_failure cs) \<Longrightarrow> error (first_failure cs) = None"
  by (induction cs rule: first_failure.induct) (auto split: if_splits)

lemma validate_refines:
  "validateSupabaseConfig parse m (Some cfg) = Inr (first_failure (spec_checks parse cfg))"
  by (simp add: validateSupabaseConfig_def spec_checks_def present_string_iff invalid_def Let_def
      split: option.splits)

lemma spec_checks_messages: "c \<in> set (spec_checks parse cfg) \<Longrightarrow> snd c \<noteq> []"
  by (auto simp: spec_checks_def Let_def split: if_splits)

text \<open>
  C4. The validator takes a configuration and returns a result, with no holder in or out.
  For every configuration and every \<^verbatim>\<open>URL\<close> parser its result is the one of the
  five checks taken in order, stopping at the first that fails: url present and a string;
  key present and a string; url parsed with protocol http or https; key not empty after
  trimming; no placeholder in key or url. The result is valid exactly when the five checks
  pass, and then carries no error; otherwise it carries a non-empty error string.
\<close>

theorem validateSupabaseConfig_checks:
  "validateSupabaseConfig parse m (Some cfg) = Inr (first_failure (spec_checks parse cfg))
   \<and> (\<forall>r. validateSupabaseConfig parse m (Some cfg) = Inr r \<longrightarrow>
         (valid r \<longleftrightarrow>
            present_string (url cfg) \<and> present_string (anonKey cfg)
            \<and> (parse (str_of (url cfg)) = Some ''http:''
                \<or> parse (str_of (url cfg)) = Some ''https:'')
            \<and> trim (str_of (anonKey cfg)) \<noteq> []
            \<and> \<not> includes_js (str_of (anonKey cfg)) ''your_supabase_anon_key''
            \<and> \<not> includes_js (str_of (url cfg)) ''your-project'')
         \<and> (valid r \<longrightarrow> error r = None)
         \<and> (\<not> valid r \<longrightarrow> (\<exists>e. error r = Some e \<and> e \<noteq> [])))"
proof -
  let ?r = "first_failure (spec_checks parse cfg)"
  have "valid ?r \<longleftrightarrow>
      present_string (url cfg) \<and> present_string (anonKey cfg)
      \<and> (parse (str_of (url cfg)) = Some ''http:'' \<or> parse (str_of (url cfg)) = Some ''https:'')
      \<and> trim (str_of (anonKey cfg)) \<noteq> []
      \<and> \<not> includes_js (str_of (anonKey cfg)) ''your_supabase_anon_key''
      \<and> \<not> includes_js (str_of (url cfg)) ''your-project''"
    by (simp add: first_failure_valid spec_checks_def Let_def)
  moreover have "valid ?r \<longrightarrow> error ?r = None"
    by (simp add: first_failure_no_error)
  moreover have "\<not> valid ?r \<longrightarrow> (\<exists>e. error ?r = Some e \<and> e \<noteq> [])"
    using first_failure_message [of "spec_checks parse cfg"] spec_checks_messages [of _ parse cfg]
    by blast
  ultimately show ?thesis
    by (simp add: validate_refines)
qed

theorem validateSupabaseConfig_checks_witness:
  "validateSupabaseConfig scheme_protocol [] (Some (plain_config ''not-a-url'' ''abc123'')) =
     Inr \<lparr>valid = False, error = Some ''Invalid Supabase URL format''\<rparr>
   \<and> validateSupabaseConfig scheme_protocol [] (Some (plain_config ''https://x.supabase.co'' [])) =
     Inr \<lparr>valid = False, error = Some ''Supabase anon key is required and must be a string''\<rparr>
   \<and> validateSupabaseConfig scheme_protocol []
        (Some (plain_config ''https://x.supabase.co'' ''   '')) =
     Inr \<lparr>valid = False, error = Some ''Supabase anon key cannot be empty''\<rparr>
   \<and> validateSupabaseConfig scheme_protocol []
        (Some (plain_config ''https://x.supabase.co'' ''your_supabase_anon_key'')) =
     Inr \<lparr>valid = False,
          error = Some ''Please replace placeholder values with actual Supabase credentials''\<rparr>
   \<and> validateSupabaseConfig scheme_protocol []
        (Some (plain_config ''https://your-project.supabase.co'' ''abc123'')) =
     Inr \<lparr>valid = False,
          error = Some ''Please replace placeholder values with actual Supabase credentials''\<rparr>
   \<and> validateSupabaseConfig scheme_protocol []
        (Some (plain_config ''ftp://x.supabase.co'' ''abc123'')) =
     Inr \<lparr>valid = False, error = Some ''Supabase URL must use http:// or https:// protocol''\<rparr>
   \<and> validateSupabaseConfig scheme_protocol []
        (Some (plain_config ''https://x.supabase.co'' ''abc123'')) =
     Inr \<lparr>valid = True, error = None\<rparr>"
proof -
  have checked: "validateSupabaseConfig scheme_protocol [] (Some (plain_config u k)) =
      Inr (first_failure (spec_checks scheme_protocol (plain_config u k)))" for u k
    using validateSupabaseConfig_checks [of scheme_protocol "[]" "plain_config u k"]
    by (rule conjunct1)
  have run: "first_failure (spec_checks scheme_protocol (plain_config u k)) =
      (if u = [] then \<lparr>valid = False, error = Some ''Supabase URL is required and must be a string''\<rparr>
       else if k = [] then
         \<lparr>valid = False, error = Some ''Supabase anon key is required and must be a string''\<rparr>
       else if scheme_protocol u \<noteq> Some ''http:'' \<and> scheme_protocol u \<noteq> Some ''https:'' then
         \<lparr>valid = False,
          error = Some (if scheme_protocol u = None then ''Invalid Supabase URL format''
                        else ''Supabase URL must use http:// or https:// protocol'')\<rparr>
       else if trim k = [] then \<lparr>valid = False, error = Some ''Supabase anon key cannot be empty''\<rparr>
       else if includes_js k ''your_supabase_anon_key'' \<or> includes_js u ''your-project'' then
         \<lparr>valid = False,
          error = Some ''Please replace placeholder values with actual Supabase credentials''\<rparr>
       else \<lparr>valid = True, error = None\<rparr>)" for u k
    by (simp add: spec_checks_def plain_config_def present_string_def Let_def)
  show ?thesis
    unfolding checked run
    by (simp add: scheme_protocol_examples trim_examples)
qed

end
